theory Spec2Isabelle
  imports Complex_Main "HOL-Library.Sublist"
begin

section \<open>Spotify Listening Insight Dashboard: the enrichment pipeline of app.py\<close>

text \<open>
  The script app.py fetches a user's top tracks, enriches every track with a genre, a
  detected language and a country, and derives metrics from the resulting table. This
  theory embeds the functions \<open>get_artist_country_lastfm\<close> and \<open>fetch_tracks\<close>, the
  data-loading section and the diversity score.

  Conventions of the embedding.
  \<^item> A Python exception is a value \<open>Exn cls msg\<close>; a computation that may raise returns
    \<open>exn + 'a\<close> with \<open>Inl\<close> for the raised exception. Only exceptions derived from
    \<open>Exception\<close> are modelled, which is what \<open>except Exception\<close> catches.
  \<^item> The services the script talks to (Spotify, langdetect, Last.fm) are fields of a record
    \<open>'w api\<close>. Every call takes the current state of the outside world (of an arbitrary
    type \<open>'w\<close>) and returns its outcome with the next state, so the same request may
    succeed once and fail later.
  \<^item> The script's own effects are kept in \<open>'w state\<close>: the world, the sequence of
    external calls made so far, and the sequence of Streamlit messages shown.
  \<^item> A Python \<open>str\<close> is a \<open>string\<close>, the list of its code points. A \<open>char\<close> holds a code
    point from U+0000 to U+00FF, so the texts of the embedding are those of this range
    (ISO 8859-1), with accented letters such as U+00DC and U+00FC.
\<close>

subsection \<open>Exceptions and JSON values\<close>

datatype exn = Exn (exn_class: string) (exn_msg: string)

definition AttributeError :: "string \<Rightarrow> exn" where
  "AttributeError m = Exn ''AttributeError'' m"

definition IndexError :: "string \<Rightarrow> exn" where
  "IndexError m = Exn ''IndexError'' m"

definition KeyError :: "string \<Rightarrow> exn" where
  "KeyError m = Exn ''KeyError'' m"

text \<open>The value \<open>requests.get(url).json()\<close> returns: any JSON document. A JSON object is
  the Python dict it parses to, written as an association list.\<close>

datatype json =
    JNull
  | JBool bool
  | JNum int
  | JStr string
  | JArr "json list"
  | JObj "(string \<times> json) list"

text \<open>\<open>d.get(key, default)\<close>: only a dict has the method.\<close>

fun dict_get :: "json \<Rightarrow> string \<Rightarrow> json \<Rightarrow> exn + json" where
  "dict_get (JObj kvs) k d = Inr (case map_of kvs k of Some v \<Rightarrow> v | None \<Rightarrow> d)"
| "dict_get _ k d = Inl (AttributeError ''object has no attribute 'get' '')"

subsection \<open>Strings\<close>

text \<open>\<open>str.lower()\<close>. From U+0000 to U+00FF the upper-case letters are \<open>A\<close> to \<open>Z\<close>
  (65 to 90) and U+00C0 to U+00DE without the multiplication sign U+00D7 (192 to 222
  without 215); the lower-case form of each is 32 code points above it, and every other
  code point is unchanged. No code point of this range depends on its neighbours.\<close>

definition is_upper_letter :: "char \<Rightarrow> bool" where
  "is_upper_letter c =
     ((65 \<le> (of_char c :: nat) \<and> (of_char c :: nat) \<le> 90) \<or>
      (192 \<le> (of_char c :: nat) \<and> (of_char c :: nat) \<le> 222 \<and> (of_char c :: nat) \<noteq> 215))"

definition char_lower :: "char \<Rightarrow> char" where
  "char_lower c = (if is_upper_letter c then char_of (of_char c + (32 :: nat)) else c)"

definition lower :: "string \<Rightarrow> string" where
  "lower s = map char_lower s"

text \<open>\<open>x.lower()\<close> on a JSON value: only a string has the method.\<close>

fun json_lower :: "json \<Rightarrow> exn + string" where
  "json_lower (JStr s) = Inr (lower s)"
| "json_lower _ = Inl (AttributeError ''object has no attribute 'lower' '')"

text \<open>\<open>a in b\<close> on strings: \<open>a\<close> occurs in \<open>b\<close> as a contiguous substring.\<close>

fun starts_with :: "string \<Rightarrow> string \<Rightarrow> bool" where
  "starts_with [] ys = True"
| "starts_with (x # xs) [] = False"
| "starts_with (x # xs) (y # ys) = (x = y \<and> starts_with xs ys)"

fun str_in :: "string \<Rightarrow> string \<Rightarrow> bool" where
  "str_in a [] = (a = [])"
| "str_in a (y # ys) = (starts_with a (y # ys) \<or> str_in a ys)"

subsection \<open>The outside world\<close>

text \<open>What the Spotify API returns, as far as the script reads it. A track of the
  response is an \<open>item\<close> of the loop in \<open>fetch_tracks\<close>; the fields the API contract
  guarantees are fields of the record, and \<open>artists\<close> is a list, whose first element the
  script takes.\<close>

record track_artist =
  artist_id :: string
  artist_name :: string

record track_album =
  album_name :: string
  release_date :: string

record track =
  track_name :: string
  artists :: "track_artist list"
  album :: track_album
  duration_ms :: int
  popularity :: int
  explicit :: bool

record top_tracks_page =
  items :: "track list"

text \<open>The artist object of \<open>sp.artist\<close>; \<open>None\<close> when it has no key \<open>genres\<close>.\<close>

record artist_info =
  genres :: "string list option"

text \<open>
  \<^item> \<open>current_user_top_tracks limit time_range\<close>, \<open>sp_artist artist_id\<close>: the Spotify client;
  \<^item> \<open>detect text\<close>: langdetect;
  \<^item> \<open>requests_get_json url\<close>: \<open>requests.get(url).json()\<close>, which raises on a network
    error and on a body that is not JSON;
  \<^item> \<open>pycountry_names\<close>: the list \<open>[c.name for c in pycountry.countries]\<close>, in its
    iteration order;
  \<^item> \<open>LAST_CLIENT_ID\<close>: the Last.fm key read from the secrets;
  \<^item> \<open>minutes_2dp ms\<close>: the float expression \<open>round(ms / 60000, 2)\<close>. Binary floating
    point is not modelled, so the value is left to the parameter.
\<close>

record 'w api =
  current_user_top_tracks :: "nat \<Rightarrow> string \<Rightarrow> 'w \<Rightarrow> (exn + top_tracks_page) \<times> 'w"
  sp_artist :: "string \<Rightarrow> 'w \<Rightarrow> (exn + artist_info) \<times> 'w"
  detect :: "string \<Rightarrow> 'w \<Rightarrow> (exn + string) \<times> 'w"
  requests_get_json :: "string \<Rightarrow> 'w \<Rightarrow> (exn + json) \<times> 'w"
  pycountry_names :: "string list"
  LAST_CLIENT_ID :: string
  minutes_2dp :: "int \<Rightarrow> rat"

datatype call =
    TopTracksCall nat string
  | ArtistCall string
  | DetectCall string
  | HttpGetCall string

datatype st_event =
    St_error string
  | St_warning string
  | St_metric string string

record 'w state =
  world :: 'w
  calls :: "call list"
  shown :: "st_event list"

text \<open>One external call: the world moves on and the call is appended to the trace.\<close>

definition do_call :: "('w \<Rightarrow> 'r \<times> 'w) \<Rightarrow> call \<Rightarrow> 'w state \<Rightarrow> 'r \<times> 'w state" where
  "do_call f c s =
     (case f (world s) of (r, w') \<Rightarrow> (r, s\<lparr>world := w', calls := calls s @ [c]\<rparr>))"

subsection \<open>Helper: the artist's country from Last.fm\<close>

definition lastfm_url :: "'w api \<Rightarrow> string \<Rightarrow> string" where
  "lastfm_url api artist_name' =
     ''http://ws.audioscrobbler.com/2.0/?method=artist.getinfo''
     @ ''&artist='' @ artist_name' @ ''&api_key='' @ LAST_CLIENT_ID api @ ''&format=json''"

text \<open>\<open>res.get("artist", {}).get("bio", {}).get("content", "")\<close>\<close>

definition bio_content :: "json \<Rightarrow> exn + json" where
  "bio_content res =
     (case dict_get res ''artist'' (JObj []) of
        Inl e \<Rightarrow> Inl e
      | Inr a \<Rightarrow>
          (case dict_get a ''bio'' (JObj []) of
             Inl e \<Rightarrow> Inl e
           | Inr b \<Rightarrow> dict_get b ''content'' (JStr [])))"

text \<open>The \<open>for country in ...\<close> loop with the \<open>return "Unknown"\<close> after it. Each
  iteration evaluates \<open>country.lower() in bio.lower()\<close>.\<close>

fun scan_countries :: "string list \<Rightarrow> json \<Rightarrow> exn + string" where
  "scan_countries [] bio = Inr ''Unknown''"
| "scan_countries (country # rest) bio =
     (case json_lower bio of
        Inl e \<Rightarrow> Inl e
      | Inr b \<Rightarrow> if str_in (lower country) b then Inr country else scan_countries rest bio)"

text \<open>The body of the \<open>try\<close>.\<close>

definition country_try :: "'w api \<Rightarrow> string \<Rightarrow> 'w state \<Rightarrow> (exn + string) \<times> 'w state" where
  "country_try api artist_name' s =
     (case do_call (requests_get_json api (lastfm_url api artist_name'))
             (HttpGetCall (lastfm_url api artist_name')) s of
        (Inl e, s') \<Rightarrow> (Inl e, s')
      | (Inr res, s') \<Rightarrow>
          (case bio_content res of
             Inl e \<Rightarrow> (Inl e, s')
           | Inr bio \<Rightarrow> (scan_countries (pycountry_names api) bio, s')))"

definition get_artist_country_lastfm :: "'w api \<Rightarrow> string \<Rightarrow> 'w state \<Rightarrow> string \<times> 'w state" where
  "get_artist_country_lastfm api artist_name' s =
     (case country_try api artist_name' s of
        (Inr country, s') \<Rightarrow> (country, s')
      | (Inl e, s') \<Rightarrow> (''Unknown'', s'))"

subsection \<open>Fetch top tracks\<close>

record row =
  Track_Name :: string
  Artist :: string
  Album :: string
  Genre :: string
  Language :: string
  Duration_min :: rat
  Popularity :: int
  Explicit :: string
  Release_Year :: string
  Country :: string

text \<open>A DataFrame is the list of its rows. The script builds one either as
  \<open>pd.DataFrame()\<close>, which has no rows and no columns, or as \<open>pd.DataFrame(rows)\<close> from a
  non-empty list of rows; \<open>df.empty\<close> is \<open>df = []\<close>.\<close>

type_synonym dataframe = "row list"

text \<open>\<open>item["artists"][0]\<close>\<close>

definition first_artist :: "track \<Rightarrow> exn + track_artist" where
  "first_artist item =
     (case artists item of
        [] \<Rightarrow> Inl (IndexError ''list index out of range'')
      | a # _ \<Rightarrow> Inr a)"

text \<open>The inner \<open>try\<close> around \<open>detect\<close>.\<close>

definition detect_language :: "'w api \<Rightarrow> string \<Rightarrow> 'w state \<Rightarrow> string \<times> 'w state" where
  "detect_language api lang_input s =
     (case do_call (detect api lang_input) (DetectCall lang_input) s of
        (Inr language, s') \<Rightarrow> (language, s')
      | (Inl e, s') \<Rightarrow> (''unknown'', s'))"

text \<open>\<open>genres[0] if genres else "Unknown"\<close> after \<open>artist_info.get("genres", [])\<close>\<close>

definition first_genre :: "artist_info \<Rightarrow> string" where
  "first_genre info =
     (case (case genres info of None \<Rightarrow> [] | Some gs \<Rightarrow> gs) of
        [] \<Rightarrow> ''Unknown''
      | g # _ \<Rightarrow> g)"

definition make_row :: "'w api \<Rightarrow> track \<Rightarrow> track_artist \<Rightarrow> string \<Rightarrow> string \<Rightarrow> string \<Rightarrow> row" where
  "make_row api item a genre language country =
     \<lparr> Track_Name = track_name item,
       Artist = artist_name a,
       Album = album_name (album item),
       Genre = genre,
       Language = language,
       Duration_min = minutes_2dp api (duration_ms item),
       Popularity = popularity item,
       Explicit = (if explicit item then ''Explicit'' else ''Clean''),
       Release_Year = take 4 (release_date (album item)),
       Country = country \<rparr>"

text \<open>One iteration of the loop over \<open>top_tracks["items"]\<close>: the row it appends, or the
  exception that leaves the loop.\<close>

definition enrich_item :: "'w api \<Rightarrow> track \<Rightarrow> 'w state \<Rightarrow> (exn + row) \<times> 'w state" where
  "enrich_item api item s =
     (case first_artist item of
        Inl e \<Rightarrow> (Inl e, s)
      | Inr a \<Rightarrow>
          (case do_call (sp_artist api (artist_id a)) (ArtistCall (artist_id a)) s of
             (Inl e, s1) \<Rightarrow> (Inl e, s1)
           | (Inr info, s1) \<Rightarrow>
               (case detect_language api (track_name item @ '' '' @ artist_name a) s1 of
                  (language, s2) \<Rightarrow>
                    (case get_artist_country_lastfm api (artist_name a) s2 of
                       (country, s3) \<Rightarrow>
                         (Inr (make_row api item a (first_genre info) language country), s3)))))"

fun enrich_loop ::
  "'w api \<Rightarrow> track list \<Rightarrow> row list \<Rightarrow> 'w state \<Rightarrow> (exn + row list) \<times> 'w state" where
  "enrich_loop api [] rows s = (Inr rows, s)"
| "enrich_loop api (item # rest) rows s =
     (case enrich_item api item s of
        (Inl e, s') \<Rightarrow> (Inl e, s')
      | (Inr r, s') \<Rightarrow> enrich_loop api rest (rows @ [r]) s')"

text \<open>The body of the outer \<open>try\<close> of \<open>fetch_tracks\<close>.\<close>

definition fetch_tracks_try ::
  "'w api \<Rightarrow> string \<Rightarrow> 'w state \<Rightarrow> (exn + dataframe) \<times> 'w state" where
  "fetch_tracks_try api time_range s =
     (case do_call (current_user_top_tracks api 20 time_range) (TopTracksCall 20 time_range) s of
        (Inl e, s') \<Rightarrow> (Inl e, s')
      | (Inr top_tracks, s') \<Rightarrow>
          if items top_tracks = [] then (Inr [], s')
          else enrich_loop api (items top_tracks) [] s')"

text \<open>\<open>fetch_tracks\<close>: the handler shows \<open>f"Failed to fetch data: {e}"\<close> with \<open>st.error\<close>
  and returns \<open>pd.DataFrame()\<close>.\<close>

definition fetch_tracks :: "'w api \<Rightarrow> string \<Rightarrow> 'w state \<Rightarrow> dataframe \<times> 'w state" where
  "fetch_tracks api time_range s =
     (case fetch_tracks_try api time_range s of
        (Inr d, s') \<Rightarrow> (d, s')
      | (Inl e, s') \<Rightarrow>
          ([], s'\<lparr>shown := shown s' @ [St_error (''Failed to fetch data: '' @ exn_msg e)]\<rparr>))"

subsection \<open>Load data\<close>

text \<open>Section 9 of the script. \<open>st.stop()\<close> ends the run of the script: nothing below it
  is executed.\<close>

record datasets =
  df_short :: dataframe
  df_medium :: dataframe
  df_long :: dataframe
  df :: dataframe

datatype 'a run = Stopped | Continues 'a

definition load_data :: "'w api \<Rightarrow> string \<Rightarrow> 'w state \<Rightarrow> datasets run \<times> 'w state" where
  "load_data api time_range s =
     (case fetch_tracks api ''short_term'' s of (short, s1) \<Rightarrow>
      case fetch_tracks api ''medium_term'' s1 of (medium, s2) \<Rightarrow>
      case fetch_tracks api ''long_term'' s2 of (long, s3) \<Rightarrow>
      case fetch_tracks api time_range s3 of (selected, s4) \<Rightarrow>
        if selected = []
        then (Stopped, s4\<lparr>shown := shown s4 @ [St_warning ''No data found.'']\<rparr>)
        else (Continues \<lparr>df_short = short, df_medium = medium, df_long = long, df = selected\<rparr>,
              s4))"

subsection \<open>Taste diversity score\<close>

text \<open>\<open>Series.unique()\<close>: the distinct values, in the order of their first appearance.\<close>

primrec unique_from :: "'a list \<Rightarrow> 'a list \<Rightarrow> 'a list" where
  "unique_from seen [] = []"
| "unique_from seen (x # xs) =
     (if x \<in> set seen then unique_from seen xs else x # unique_from (x # seen) xs)"

definition unique :: "'a list \<Rightarrow> 'a list" where
  "unique xs = unique_from [] xs"

text \<open>\<open>Series.mean()\<close> of a non-empty integer column. Floats are modelled by exact
  rationals.\<close>

definition mean :: "int list \<Rightarrow> rat" where
  "mean xs = of_int (sum_list xs) / of_int (int (length xs))"

text \<open>The expression assigned to \<open>diversity\<close>. A DataFrame made by \<open>pd.DataFrame()\<close> has
  no column \<open>Genre\<close>.\<close>

definition diversity :: "dataframe \<Rightarrow> exn + rat" where
  "diversity d =
     (if d = [] then Inl (KeyError ''Genre'')
      else Inr (of_nat (length (unique (map Genre d)) * 2 +
                        length (unique (map Language d)) * 2 +
                        length (unique (map Release_Year d)))
                + (100 - mean (map Popularity d))))"







subsection \<open>What the specification calls a failed biography fetch\<close>

text \<open>Following the specification's words ("network error, malformed response, missing
  field"): the request raised, or the response has no biography text to scan. The latter
  is a response that is not made of dicts down to \<open>content\<close>, a \<open>content\<close> that is not a
  string, or a missing field, for which the \<open>get\<close> chain yields the empty string.\<close>

fun no_text :: "json \<Rightarrow> bool" where
  "no_text (JStr t) = (t = [])"
| "no_text _ = True"

definition bio_fetch_fails :: "exn + json \<Rightarrow> bool" where
  "bio_fetch_fails r =
     (case r of
        Inl e \<Rightarrow> True
      | Inr res \<Rightarrow> (case bio_content res of Inl e \<Rightarrow> True | Inr bio \<Rightarrow> no_text bio))"

subsection \<open>Notions used to state the properties\<close>

text \<open>The calls of the trace that ask Spotify for the top tracks. \<open>fetch_tracks\<close> makes
  this call once, as its first action, so they count the invocations of \<open>fetch_tracks\<close>.\<close>

fun is_top_tracks_call :: "call \<Rightarrow> bool" where
  "is_top_tracks_call (TopTracksCall limit time_range) = True"
| "is_top_tracks_call _ = False"

definition top_tracks_calls :: "call list \<Rightarrow> call list" where
  "top_tracks_calls cs = filter is_top_tracks_call cs"

text \<open>Row \<open>r\<close> is the row of track \<open>t\<close>: it is the row the loop builds from \<open>t\<close> and its first
  artist, with whatever genre, language and country \<open>r\<close> carries.\<close>

definition row_of_track :: "'w api \<Rightarrow> track \<Rightarrow> row \<Rightarrow> bool" where
  "row_of_track api t r =
     (case artists t of
        [] \<Rightarrow> False
      | a # _ \<Rightarrow> r = make_row api t a (Genre r) (Language r) (Country r))"




text \<open>Every artist-metadata lookup of the run succeeds: going through the batch from state
  \<open>s\<close> as the loop does, each track has a first artist and the lookup made for it, in the
  state the run has reached by then, returns.\<close>

fun lookups_succeed :: "'w api \<Rightarrow> track list \<Rightarrow> 'w state \<Rightarrow> bool" where
  "lookups_succeed api [] s = True"
| "lookups_succeed api (item # rest) s =
     (case artists item of
        [] \<Rightarrow> False
      | a # _ \<Rightarrow>
          (case fst (sp_artist api (artist_id a) (world s)) of
             Inl e \<Rightarrow> False
           | Inr info \<Rightarrow> lookups_succeed api rest (snd (enrich_item api item s))))"

subsection \<open>Concrete services for the examples\<close>

text \<open>A world without state (\<open>unit\<close>) whose services answer by the given functions. The
  country list of the examples is \<open>Canada, France\<close>, in this order.\<close>

definition example_api ::
  "(string \<Rightarrow> exn + top_tracks_page) \<Rightarrow> (string \<Rightarrow> exn + artist_info) \<Rightarrow>
   (string \<Rightarrow> exn + string) \<Rightarrow> (string \<Rightarrow> exn + json) \<Rightarrow> unit api" where
  "example_api page art det http =
     \<lparr> current_user_top_tracks = (\<lambda>limit time_range w. (page time_range, w)),
       sp_artist = (\<lambda>i w. (art i, w)),
       detect = (\<lambda>t w. (det t, w)),
       requests_get_json = (\<lambda>u w. (http u, w)),
       pycountry_names = [''Canada'', ''France''],
       LAST_CLIENT_ID = ''k'',
       minutes_2dp = (\<lambda>ms. of_int (ms div 600) / 100) \<rparr>"

definition start :: "unit state" where
  "start = \<lparr> world = (), calls = [], shown = [] \<rparr>"

definition bio_response :: "string \<Rightarrow> json" where
  "bio_response text =
     JObj [(''artist'', JObj [(''bio'', JObj [(''content'', JStr text)])])]"

definition no_page :: "string \<Rightarrow> exn + top_tracks_page" where
  "no_page time_range = Inr \<lparr> items = [] \<rparr>"

definition no_artist :: "string \<Rightarrow> exn + artist_info" where
  "no_artist i = Inl (Exn ''SpotifyException'' ''artist lookup failed'')"

definition no_language :: "string \<Rightarrow> exn + string" where
  "no_language t = Inl (Exn ''LangDetectException'' ''No features in text.'')"

definition no_network :: "string \<Rightarrow> exn + json" where
  "no_network u = Inl (Exn ''ConnectionError'' ''connection refused'')"


definition network_down_api :: "unit api" where
  "network_down_api = example_api no_page no_artist no_language no_network"

definition empty_response_api :: "unit api" where
  "empty_response_api = example_api no_page no_artist no_language (\<lambda>u. Inr (JObj []))"

definition track_one :: track where
  "track_one =
     \<lparr> track_name = ''Hello'',
       artists = [\<lparr> artist_id = ''a1'', artist_name = ''Ann'' \<rparr>],
       album = \<lparr> album_name = ''First'', release_date = ''2019-05-01'' \<rparr>,
       duration_ms = 215000,
       popularity = 64,
       explicit = False \<rparr>"

definition track_two :: track where
  "track_two =
     \<lparr> track_name = ''Bonjour'',
       artists = [\<lparr> artist_id = ''a2'', artist_name = ''Bob'' \<rparr>],
       album = \<lparr> album_name = ''Second'', release_date = ''2021'' \<rparr>,
       duration_ms = 180000,
       popularity = 40,
       explicit = True \<rparr>"

definition two_tracks :: "string \<Rightarrow> exn + top_tracks_page" where
  "two_tracks time_range = Inr \<lparr> items = [track_one, track_two] \<rparr>"

definition top_tracks_down :: "string \<Rightarrow> exn + top_tracks_page" where
  "top_tracks_down time_range = Inl (Exn ''SpotifyException'' ''token expired'')"

definition artist_found :: "string \<Rightarrow> exn + artist_info" where
  "artist_found i = Inr \<lparr> genres = Some [''pop'', ''rock''] \<rparr>"

definition first_lookup_fails :: "string \<Rightarrow> exn + artist_info" where
  "first_lookup_fails i =
     (if i = ''a1'' then Inl (Exn ''SpotifyException'' ''artist lookup failed'')
      else Inr \<lparr> genres = Some [''pop''] \<rparr>)"

definition second_lookup_fails :: "string \<Rightarrow> exn + artist_info" where
  "second_lookup_fails i =
     (if i = ''a2'' then Inl (Exn ''SpotifyException'' ''artist lookup failed'')
      else Inr \<lparr> genres = Some [''pop''] \<rparr>)"

definition english :: "string \<Rightarrow> exn + string" where
  "english t = Inr ''en''"

text \<open>Language detection and the biography request both fail; Spotify answers.\<close>

definition degraded_api :: "unit api" where
  "degraded_api = example_api two_tracks artist_found no_language no_network"

text \<open>Only the artist lookup of one track fails.\<close>

definition first_genre_fails_api :: "unit api" where
  "first_genre_fails_api =
     example_api two_tracks first_lookup_fails english (\<lambda>u. Inr (bio_response ''From Canada.''))"

definition second_genre_fails_api :: "unit api" where
  "second_genre_fails_api =
     example_api two_tracks second_lookup_fails english (\<lambda>u. Inr (bio_response ''From Canada.''))"

definition spotify_down_api :: "unit api" where
  "spotify_down_api = example_api top_tracks_down no_artist no_language no_network"

text \<open>Tables for the diversity score: a row with the given genre, language, release year
  and popularity.\<close>

definition example_row :: "string \<Rightarrow> string \<Rightarrow> string \<Rightarrow> int \<Rightarrow> row" where
  "example_row g l y p =
     \<lparr> Track_Name = ''Hello'', Artist = ''Ann'', Album = ''First'', Genre = g, Language = l,
       Duration_min = 3, Popularity = p, Explicit = ''Clean'', Release_Year = y,
       Country = ''Unknown'' \<rparr>"

text \<open>Five genres, three languages, four release years, mean popularity 60.\<close>

definition table_60 :: dataframe where
  "table_60 =
     [example_row ''pop'' ''en'' ''2019'' 60,
      example_row ''rock'' ''en'' ''2020'' 60,
      example_row ''jazz'' ''fr'' ''2021'' 60,
      example_row ''folk'' ''es'' ''2022'' 50,
      example_row ''soul'' ''en'' ''2019'' 70]"


text \<open>One track that nobody listens to.\<close>

definition table_obscure :: dataframe where
  "table_obscure = [example_row ''pop'' ''en'' ''2019'' 0]"

text \<open>Language detection fails while the biography names a country.\<close>

definition language_fails_api :: "unit api" where
  "language_fails_api =
     example_api two_tracks artist_found no_language (\<lambda>u. Inr (bio_response ''From Canada.''))"

text \<open>The artist has no genre and the response has no biography.\<close>

definition artist_without_genres :: "string \<Rightarrow> exn + artist_info" where
  "artist_without_genres i = Inr \<lparr> genres = Some [] \<rparr>"

definition no_genre_api :: "unit api" where
  "no_genre_api = example_api two_tracks artist_without_genres english (\<lambda>u. Inr (JObj []))"




text \<open>A Spotify client that answers the first two artist lookups and fails from the third
  on; the world counts the lookups.\<close>

definition flaky_api :: "nat api" where
  "flaky_api =
     \<lparr> current_user_top_tracks = (\<lambda>limit time_range w. (two_tracks time_range, w)),
       sp_artist = (\<lambda>i w. (if w < 2 then artist_found i else no_artist i, Suc w)),
       detect = (\<lambda>t w. (english t, w)),
       requests_get_json = (\<lambda>u w. (no_network u, w)),
       pycountry_names = [''Canada'', ''France''],
       LAST_CLIENT_ID = ''k'',
       minutes_2dp = (\<lambda>ms. of_int (ms div 600) / 100) \<rparr>"

definition start_count :: "nat state" where
  "start_count = \<lparr> world = 0, calls = [], shown = [] \<rparr>"

section \<open>Properties of the country resolver\<close>



text \<open>What \<open>lower\<close> does: it keeps the length, lowering twice is lowering once, and two
  texts have the same lower-case form exactly when they spell the same letters up to case.
  So the test \<open>country.lower() in bio.lower()\<close> is the case-insensitive occurrence.\<close>

lemma char_eq_char_of: "c = char_of (n :: nat) \<longleftrightarrow> take_bit 8 n = (of_char c :: nat)"
  using char_of_eq_iff[of n c] by auto

text \<open>The equations that evaluate \<open>lower\<close> on a written text.\<close>

lemmas lower_eval = lower_def char_lower_def is_upper_letter_def char_of_eq_iff char_eq_char_of

lemma of_char_lower:
  "(of_char (char_lower c) :: nat) = (if is_upper_letter c then of_char c + 32 else of_char c)"
  by (auto simp: char_lower_def is_upper_letter_def)


lemma length_lower: "length (lower s) = length s"
  by (simp add: lower_def)

lemma char_lower_idem: "char_lower (char_lower c) = char_lower c"
proof -
  have "(of_char (char_lower (char_lower c)) :: nat) = of_char (char_lower c)"
    unfolding of_char_lower by (auto simp: is_upper_letter_def of_char_lower)
  then show ?thesis by simp
qed

lemma lower_idem: "lower (lower s) = lower s"
  by (simp add: lower_def char_lower_idem)





lemma scan_countries_range:
  "scan_countries cs bio = Inr c \<Longrightarrow> c = ''Unknown'' \<or> c \<in> set cs"
  by (induction cs) (auto split: sum.splits if_splits)

lemma scan_countries_no_text:
  "no_text bio \<Longrightarrow> [] \<notin> set cs \<Longrightarrow> scan_countries cs bio = Inr c \<Longrightarrow> c = ''Unknown''"
  by (induction cs; cases bio) (auto simp: lower_def split: if_splits)

lemma get_country_state:
  "requests_get_json api (lastfm_url api n) (world s) = (r, w') \<Longrightarrow>
   snd (get_artist_country_lastfm api n s) =
     s\<lparr>world := w', calls := calls s @ [HttpGetCall (lastfm_url api n)]\<rparr>"
  by (auto simp: get_artist_country_lastfm_def country_try_def do_call_def split: sum.splits)

lemma get_country_value:
  "requests_get_json api (lastfm_url api n) (world s) = (r, w') \<Longrightarrow>
   fst (get_artist_country_lastfm api n s) =
     (case r of
        Inl e \<Rightarrow> ''Unknown''
      | Inr res \<Rightarrow>
          (case bio_content res of
             Inl e \<Rightarrow> ''Unknown''
           | Inr bio \<Rightarrow>
               (case scan_countries (pycountry_names api) bio of
                  Inl e \<Rightarrow> ''Unknown''
                | Inr c \<Rightarrow> c)))"
  by (auto simp: get_artist_country_lastfm_def country_try_def do_call_def split: sum.splits)



text \<open>C9. Whatever the services answer, the resolver returns the sentinel \<open>Unknown\<close> or an
  element of the country list, spelled as the list spells it: the value returned inside
  the loop is the loop variable, never a piece of the biography.\<close>

theorem country_in_list_or_unknown:
  "fst (get_artist_country_lastfm api n s) = ''Unknown'' \<or>
   fst (get_artist_country_lastfm api n s) \<in> set (pycountry_names api)"
proof -
  obtain r w' where c: "requests_get_json api (lastfm_url api n) (world s) = (r, w')"
    by (cases "requests_get_json api (lastfm_url api n) (world s)")
  show ?thesis
    unfolding get_country_value[OF c]
    by (auto split: sum.splits dest: scan_countries_range)
qed

text \<open>C7. When the biography fetch fails (the request raises, the response is malformed, or
  a field is missing, so that there is no biography text) and no name of the country list
  is the empty string, the resolver returns exactly \<open>Unknown\<close>. It returns normally: the
  only effects are the request itself, and nothing is shown to the user.\<close>

theorem country_unknown_when_fetch_fails:
  assumes "requests_get_json api (lastfm_url api n) (world s) = (r, w')"
      and "bio_fetch_fails r"
      and "[] \<notin> set (pycountry_names api)"
  shows "get_artist_country_lastfm api n s =
           (''Unknown'', s\<lparr>world := w', calls := calls s @ [HttpGetCall (lastfm_url api n)]\<rparr>)"
proof -
  have "fst (get_artist_country_lastfm api n s) = ''Unknown''"
    unfolding get_country_value[OF assms(1)]
    using assms(2,3)
    by (auto simp: bio_fetch_fails_def split: sum.splits dest: scan_countries_no_text)
  moreover note get_country_state[OF assms(1)]
  ultimately show ?thesis by (simp add: prod_eq_iff)
qed

theorem country_unknown_when_fetch_fails_witness:
  "bio_fetch_fails (Inl (Exn ''ConnectionError'' ''connection refused''))
   \<and> get_artist_country_lastfm network_down_api ''Ann'' start =
       (''Unknown'',
        start\<lparr>world := (),
              calls := calls start @ [HttpGetCall (lastfm_url network_down_api ''Ann'')]\<rparr>)
   \<and> bio_fetch_fails (Inr (JObj []))
   \<and> get_artist_country_lastfm empty_response_api ''Ann'' start =
       (''Unknown'',
        start\<lparr>world := (),
              calls := calls start @ [HttpGetCall (lastfm_url empty_response_api ''Ann'')]\<rparr>)"
proof -
  have a1: "requests_get_json network_down_api (lastfm_url network_down_api ''Ann'') (world start)
              = (Inl (Exn ''ConnectionError'' ''connection refused''), ())"
    by (simp add: network_down_api_def example_api_def no_network_def)
  have a2: "bio_fetch_fails (Inl (Exn ''ConnectionError'' ''connection refused''))"
    by (simp add: bio_fetch_fails_def)
  have a3: "[] \<notin> set (pycountry_names network_down_api)"
    by (simp add: network_down_api_def example_api_def)
  have b1: "requests_get_json empty_response_api (lastfm_url empty_response_api ''Ann'')
              (world start) = (Inr (JObj []), ())"
    by (simp add: empty_response_api_def example_api_def)
  have b2: "bio_fetch_fails (Inr (JObj []))"
    by (simp add: bio_fetch_fails_def bio_content_def)
  have b3: "[] \<notin> set (pycountry_names empty_response_api)"
    by (simp add: empty_response_api_def example_api_def)
  show ?thesis
    using country_unknown_when_fetch_fails[OF a1 a2 a3]
          country_unknown_when_fetch_fails[OF b1 b2 b3] a2 b2
    by blast
qed

section \<open>Properties of the enrichment loop\<close>

lemma do_call_shown: "shown (snd (do_call f c s)) = shown s"
  by (simp add: do_call_def split: prod.splits)

lemma do_call_calls: "calls (snd (do_call f c s)) = calls s @ [c]"
  by (simp add: do_call_def split: prod.splits)

lemma get_country_shown: "shown (snd (get_artist_country_lastfm api n s)) = shown s"
  by (cases "requests_get_json api (lastfm_url api n) (world s)")
     (simp add: get_country_state)

lemma get_country_top_calls:
  "top_tracks_calls (calls (snd (get_artist_country_lastfm api n s))) = top_tracks_calls (calls s)"
  by (cases "requests_get_json api (lastfm_url api n) (world s)")
     (simp add: get_country_state top_tracks_calls_def)

lemma detect_language_eq:
  "detect api t (world s) = (r, w') \<Longrightarrow>
   detect_language api t s =
     (case r of Inl e \<Rightarrow> ''unknown'' | Inr l \<Rightarrow> l,
      s\<lparr>world := w', calls := calls s @ [DetectCall t]\<rparr>)"
  by (simp add: detect_language_def do_call_def split: sum.splits)

lemma detect_language_shown: "shown (snd (detect_language api t s)) = shown s"
  by (cases "detect api t (world s)") (simp add: detect_language_eq)

lemma detect_language_top_calls:
  "top_tracks_calls (calls (snd (detect_language api t s))) = top_tracks_calls (calls s)"
  by (cases "detect api t (world s)") (simp add: detect_language_eq top_tracks_calls_def)

lemma enrich_item_no_artist:
  "artists item = [] \<Longrightarrow>
   enrich_item api item s = (Inl (IndexError ''list index out of range''), s)"
  by (simp add: enrich_item_def first_artist_def)

lemma enrich_item_lookup_failed:
  "artists item = a # others \<Longrightarrow> sp_artist api (artist_id a) (world s) = (Inl e, w1) \<Longrightarrow>
   enrich_item api item s =
     (Inl e, s\<lparr>world := w1, calls := calls s @ [ArtistCall (artist_id a)]\<rparr>)"
  by (simp add: enrich_item_def first_artist_def do_call_def)

lemma enrich_item_ok:
  assumes "artists item = a # others"
      and "sp_artist api (artist_id a) (world s) = (Inr info, w1)"
      and "detect api (track_name item @ '' '' @ artist_name a) w1 = (rl, w2)"
      and "requests_get_json api (lastfm_url api (artist_name a)) w2 = (rc, w3)"
  shows "enrich_item api item s =
     (Inr (make_row api item a (first_genre info)
             (case rl of Inl e \<Rightarrow> ''unknown'' | Inr l \<Rightarrow> l)
             (case rc of
                Inl e \<Rightarrow> ''Unknown''
              | Inr res \<Rightarrow>
                  (case bio_content res of
                     Inl e \<Rightarrow> ''Unknown''
                   | Inr bio \<Rightarrow>
                       (case scan_countries (pycountry_names api) bio of
                          Inl e \<Rightarrow> ''Unknown''
                        | Inr c \<Rightarrow> c)))),
      s\<lparr>world := w3,
        calls := calls s @ [ArtistCall (artist_id a),
                            DetectCall (track_name item @ '' '' @ artist_name a),
                            HttpGetCall (lastfm_url api (artist_name a))]\<rparr>)"
proof -
  let ?s1 = "s\<lparr>world := w1, calls := calls s @ [ArtistCall (artist_id a)]\<rparr>"
  let ?t = "track_name item @ '' '' @ artist_name a"
  let ?s2 = "?s1\<lparr>world := w2, calls := calls ?s1 @ [DetectCall ?t]\<rparr>"
  let ?n = "artist_name a"
  have 1: "do_call (sp_artist api (artist_id a)) (ArtistCall (artist_id a)) s = (Inr info, ?s1)"
    using assms(2) by (simp add: do_call_def)
  have d: "detect api ?t (world ?s1) = (rl, w2)"
    using assms(3) by simp
  have h: "requests_get_json api (lastfm_url api ?n) (world ?s2) = (rc, w3)"
    using assms(4) by simp
  have 3: "get_artist_country_lastfm api ?n ?s2 =
             (fst (get_artist_country_lastfm api ?n ?s2),
              snd (get_artist_country_lastfm api ?n ?s2))"
    by simp
  show ?thesis
    apply (simp only: enrich_item_def first_artist_def assms(1) list.case sum.case 1 prod.case
                      detect_language_eq[OF d])
    apply (subst 3)
    apply (simp only: prod.case get_country_value[OF h] get_country_state[OF h])
    apply simp
    done
qed

lemma enrich_item_shown: "shown (snd (enrich_item api item s)) = shown s"
proof (cases "artists item")
  case Nil
  then show ?thesis by (simp add: enrich_item_no_artist)
next
  case (Cons a others)
  obtain ra w1 where 1: "sp_artist api (artist_id a) (world s) = (ra, w1)"
    by (cases "sp_artist api (artist_id a) (world s)")
  obtain rl w2 where 2: "detect api (track_name item @ '' '' @ artist_name a) w1 = (rl, w2)"
    by (cases "detect api (track_name item @ '' '' @ artist_name a) w1")
  obtain rc w3 where 3: "requests_get_json api (lastfm_url api (artist_name a)) w2 = (rc, w3)"
    by (cases "requests_get_json api (lastfm_url api (artist_name a)) w2")
  show ?thesis
  proof (cases ra)
    case (Inl e)
    with Cons 1 show ?thesis by (simp add: enrich_item_lookup_failed)
  next
    case (Inr info)
    with 1 have "sp_artist api (artist_id a) (world s) = (Inr info, w1)" by simp
    from enrich_item_ok[OF Cons this 2 3] show ?thesis by simp
  qed
qed

lemma enrich_item_top_calls:
  "top_tracks_calls (calls (snd (enrich_item api item s))) = top_tracks_calls (calls s)"
proof (cases "artists item")
  case Nil
  then show ?thesis by (simp add: enrich_item_no_artist)
next
  case (Cons a others)
  obtain ra w1 where 1: "sp_artist api (artist_id a) (world s) = (ra, w1)"
    by (cases "sp_artist api (artist_id a) (world s)")
  obtain rl w2 where 2: "detect api (track_name item @ '' '' @ artist_name a) w1 = (rl, w2)"
    by (cases "detect api (track_name item @ '' '' @ artist_name a) w1")
  obtain rc w3 where 3: "requests_get_json api (lastfm_url api (artist_name a)) w2 = (rc, w3)"
    by (cases "requests_get_json api (lastfm_url api (artist_name a)) w2")
  show ?thesis
  proof (cases ra)
    case (Inl e)
    with Cons 1 show ?thesis by (simp add: enrich_item_lookup_failed top_tracks_calls_def)
  next
    case (Inr info)
    with 1 have "sp_artist api (artist_id a) (world s) = (Inr info, w1)" by simp
    from enrich_item_ok[OF Cons this 2 3] show ?thesis by (simp add: top_tracks_calls_def)
  qed
qed

lemma enrich_item_row:
  "enrich_item api item s = (Inr r, s') \<Longrightarrow> row_of_track api item r"
  by (auto simp: enrich_item_def first_artist_def row_of_track_def make_row_def
           split: list.splits sum.splits prod.splits)

lemma enrich_loop_shown: "shown (snd (enrich_loop api xs rows s)) = shown s"
proof (induction xs arbitrary: rows s)
  case Nil
  show ?case by simp
next
  case (Cons x xs)
  obtain r s' where e: "enrich_item api x s = (r, s')" by (cases "enrich_item api x s")
  have "shown s' = shown s" using enrich_item_shown[of api x s] e by simp
  with e Cons show ?case by (cases r) simp_all
qed

lemma enrich_loop_top_calls:
  "top_tracks_calls (calls (snd (enrich_loop api xs rows s))) = top_tracks_calls (calls s)"
proof (induction xs arbitrary: rows s)
  case Nil
  show ?case by simp
next
  case (Cons x xs)
  obtain r s' where e: "enrich_item api x s = (r, s')" by (cases "enrich_item api x s")
  have "top_tracks_calls (calls s') = top_tracks_calls (calls s)"
    using enrich_item_top_calls[of api x s] e by simp
  with e Cons show ?case by (cases r) simp_all
qed

lemma enrich_loop_rows:
  "enrich_loop api xs rows s = (Inr rs, s') \<Longrightarrow>
   \<exists>new. rs = rows @ new \<and> list_all2 (row_of_track api) xs new"
proof (induction xs arbitrary: rows s)
  case Nil
  then show ?case by simp
next
  case (Cons x xs)
  obtain r s1 where e: "enrich_item api x s = (r, s1)" by (cases "enrich_item api x s")
  show ?case
  proof (cases r)
    case (Inl ex)
    with e Cons.prems show ?thesis by simp
  next
    case (Inr rw)
    with e Cons.prems have "enrich_loop api xs (rows @ [rw]) s1 = (Inr rs, s')" by simp
    from Cons.IH[OF this] obtain new where
      n: "rs = (rows @ [rw]) @ new" "list_all2 (row_of_track api) xs new" by blast
    have "row_of_track api x rw" using e Inr by (auto intro: enrich_item_row)
    with n have "rs = rows @ (rw # new) \<and> list_all2 (row_of_track api) (x # xs) (rw # new)"
      by simp
    then show ?thesis by blast
  qed
qed

lemma enrich_loop_succeeds:
  assumes "\<forall>t \<in> set xs. artists t \<noteq> [] \<and>
             (\<forall>w. \<exists>info w'. sp_artist api (artist_id (hd (artists t))) w = (Inr info, w'))"
  shows "\<exists>rs. fst (enrich_loop api xs rows s) = Inr rs"
  using assms
proof (induction xs arbitrary: rows s)
  case Nil
  show ?case by simp
next
  case (Cons x xs)
  from Cons.prems obtain a others where a: "artists x = a # others"
    by (cases "artists x") auto
  from Cons.prems a obtain info w1 where
    1: "sp_artist api (artist_id a) (world s) = (Inr info, w1)"
    by fastforce
  obtain rl w2 where 2: "detect api (track_name x @ '' '' @ artist_name a) w1 = (rl, w2)"
    by (cases "detect api (track_name x @ '' '' @ artist_name a) w1")
  obtain rc w3 where 3: "requests_get_json api (lastfm_url api (artist_name a)) w2 = (rc, w3)"
    by (cases "requests_get_json api (lastfm_url api (artist_name a)) w2")
  have rest: "\<forall>t \<in> set xs. artists t \<noteq> [] \<and>
             (\<forall>w. \<exists>info w'. sp_artist api (artist_id (hd (artists t))) w = (Inr info, w'))"
    using Cons.prems by simp
  show ?case
    using Cons.IH[OF rest] by (simp add: enrich_item_ok[OF a 1 2 3])
qed

lemma enrich_loop_outcome:
  "(\<exists>rs. fst (enrich_loop api xs rows s) = Inr rs) \<longleftrightarrow> lookups_succeed api xs s"
proof (induction xs arbitrary: rows s)
  case Nil
  show ?case by simp
next
  case (Cons x xs)
  show ?case
  proof (cases "artists x")
    case Nil
    then show ?thesis by (simp add: enrich_item_no_artist)
  next
    case (Cons a others)
    obtain ra w1 where 1: "sp_artist api (artist_id a) (world s) = (ra, w1)"
      by (cases "sp_artist api (artist_id a) (world s)")
    obtain rl w2 where 2: "detect api (track_name x @ '' '' @ artist_name a) w1 = (rl, w2)"
      by (cases "detect api (track_name x @ '' '' @ artist_name a) w1")
    obtain rc w3 where 3: "requests_get_json api (lastfm_url api (artist_name a)) w2 = (rc, w3)"
      by (cases "requests_get_json api (lastfm_url api (artist_name a)) w2")
    show ?thesis
    proof (cases ra)
      case (Inl e)
      with 1 have "sp_artist api (artist_id a) (world s) = (Inl e, w1)" by simp
      from enrich_item_lookup_failed[OF Cons this] 1 Inl Cons show ?thesis by simp
    next
      case (Inr info)
      with 1 have ok: "sp_artist api (artist_id a) (world s) = (Inr info, w1)" by simp
      note e = enrich_item_ok[OF Cons ok 2 3]
      show ?thesis
        using Cons.IH by (simp add: e Cons ok)
    qed
  qed
qed

lemma lookups_succeed_if_always:
  assumes "\<forall>t \<in> set xs. artists t \<noteq> [] \<and>
             (\<forall>w. \<exists>info w'. sp_artist api (artist_id (hd (artists t))) w = (Inr info, w'))"
  shows "lookups_succeed api xs s"
  using enrich_loop_succeeds[OF assms, of "[]" s] enrich_loop_outcome[of api xs "[]" s]
  by simp

lemma first_genre_unknown:
  "genres info = None \<or> genres info = Some [] \<Longrightarrow> first_genre info = ''Unknown''"
  by (auto simp: first_genre_def)

lemma first_genre_cases:
  "first_genre info = (case genres info of Some (g # gs) \<Rightarrow> g | _ \<Rightarrow> ''Unknown'')"
  by (simp add: first_genre_def split: option.splits list.splits)

lemma enrich_item_degrades:
  assumes "artists item = a # others"
      and "sp_artist api (artist_id a) (world s) = (Inr info, w1)"
      and "detect api (track_name item @ '' '' @ artist_name a) w1 = (rl, w2)"
      and "requests_get_json api (lastfm_url api (artist_name a)) w2 = (rc, w3)"
  shows "\<exists>r s'. enrich_item api item s = (Inr r, s')
           \<and> enrich_loop api (item # rest) rows s = enrich_loop api rest (rows @ [r]) s'
           \<and> shown s' = shown s
           \<and> row_of_track api item r
           \<and> Genre r = (case genres info of Some (g # gs) \<Rightarrow> g | _ \<Rightarrow> ''Unknown'')
           \<and> Language r = (case rl of Inl e \<Rightarrow> ''unknown'' | Inr l \<Rightarrow> l)
           \<and> Country r =
               (case rc of
                  Inl e \<Rightarrow> ''Unknown''
                | Inr res \<Rightarrow>
                    (case bio_content res of
                       Inl e \<Rightarrow> ''Unknown''
                     | Inr bio \<Rightarrow>
                         (case scan_countries (pycountry_names api) bio of
                            Inl e \<Rightarrow> ''Unknown''
                          | Inr c \<Rightarrow> c)))
           \<and> (bio_fetch_fails rc \<and> [] \<notin> set (pycountry_names api)
                \<longrightarrow> Country r = ''Unknown'')"
proof -
  let ?country = "case rc of
                  Inl e \<Rightarrow> ''Unknown''
                | Inr res \<Rightarrow>
                    (case bio_content res of
                       Inl e \<Rightarrow> ''Unknown''
                     | Inr bio \<Rightarrow>
                         (case scan_countries (pycountry_names api) bio of
                            Inl e \<Rightarrow> ''Unknown''
                          | Inr c \<Rightarrow> c))"
  note ok = enrich_item_ok[OF assms]
  obtain r s' where e: "enrich_item api item s = (Inr r, s')"
    using ok by simp
  have sh: "shown s' = shown s"
    using enrich_item_shown[of api item s] e by simp
  have rt: "row_of_track api item r"
    using e by (rule enrich_item_row)
  have g: "Genre r = (case genres info of Some (g # gs) \<Rightarrow> g | _ \<Rightarrow> ''Unknown'')"
    using ok e by (simp add: make_row_def first_genre_cases)
  have l: "Language r = (case rl of Inl e \<Rightarrow> ''unknown'' | Inr l \<Rightarrow> l)"
    using ok e by (simp add: make_row_def)
  have c: "Country r = ?country"
    using ok e by (simp add: make_row_def)
  have f: "bio_fetch_fails rc \<and> [] \<notin> set (pycountry_names api) \<longrightarrow> Country r = ''Unknown''"
    unfolding c
    by (auto simp: bio_fetch_fails_def split: sum.splits dest: scan_countries_no_text)
  have "enrich_loop api (item # rest) rows s = enrich_loop api rest (rows @ [r]) s'"
    by (simp add: e)
  with e sh rt g l c f show ?thesis by blast
qed

text \<open>C1, as amended. Take any track of a batch, with its first artist, and the answers the
  three services give for it. When the artist-metadata lookup returns, the iteration
  appends the row of the track, shows no error, and the loop goes on with the rest of the
  batch; each enriched field of the row depends on the answer of its own service only:
  the genre is the first genre of the lookup, or \<open>Unknown\<close> when the artist has none; the
  language is the detected one, or \<open>unknown\<close> when detection raises; the country is what
  the resolver makes of the biography response, which is \<open>Unknown\<close> when the request
  raises and, for a country list without an empty name, whenever the biography fetch fails
  (malformed response, missing field). When the artist-metadata lookup raises, nothing is
  degraded to a sentinel: the exception leaves the loop at this track, with the rows built
  so far and the rest of the batch abandoned.\<close>

theorem enrichment_degrades_language_and_country:
  assumes "artists item = a # others"
      and "sp_artist api (artist_id a) (world s) = (ra, w1)"
      and "detect api (track_name item @ '' '' @ artist_name a) w1 = (rl, w2)"
      and "requests_get_json api (lastfm_url api (artist_name a)) w2 = (rc, w3)"
  shows "(\<forall>info. ra = Inr info \<longrightarrow>
           (\<exists>r s'. enrich_item api item s = (Inr r, s')
              \<and> enrich_loop api (item # rest) rows s = enrich_loop api rest (rows @ [r]) s'
              \<and> shown s' = shown s
              \<and> row_of_track api item r
              \<and> Genre r = (case genres info of Some (g # gs) \<Rightarrow> g | _ \<Rightarrow> ''Unknown'')
              \<and> Language r = (case rl of Inl e \<Rightarrow> ''unknown'' | Inr l \<Rightarrow> l)
              \<and> Country r =
                  (case rc of
                     Inl e \<Rightarrow> ''Unknown''
                   | Inr res \<Rightarrow>
                       (case bio_content res of
                          Inl e \<Rightarrow> ''Unknown''
                        | Inr bio \<Rightarrow>
                            (case scan_countries (pycountry_names api) bio of
                               Inl e \<Rightarrow> ''Unknown''
                             | Inr c \<Rightarrow> c)))
              \<and> (bio_fetch_fails rc \<and> [] \<notin> set (pycountry_names api)
                   \<longrightarrow> Country r = ''Unknown'')))
       \<and> (\<forall>e. ra = Inl e \<longrightarrow>
           enrich_loop api (item # rest) rows s =
             (Inl e, s\<lparr>world := w1, calls := calls s @ [ArtistCall (artist_id a)]\<rparr>))"
proof (intro conjI allI impI)
  fix info
  assume "ra = Inr info"
  with assms(2) have "sp_artist api (artist_id a) (world s) = (Inr info, w1)"
    by simp
  from enrich_item_degrades[OF assms(1) this assms(3,4)]
  show "\<exists>r s'. enrich_item api item s = (Inr r, s')
           \<and> enrich_loop api (item # rest) rows s = enrich_loop api rest (rows @ [r]) s'
           \<and> shown s' = shown s
           \<and> row_of_track api item r
           \<and> Genre r = (case genres info of Some (g # gs) \<Rightarrow> g | _ \<Rightarrow> ''Unknown'')
           \<and> Language r = (case rl of Inl e \<Rightarrow> ''unknown'' | Inr l \<Rightarrow> l)
           \<and> Country r =
               (case rc of
                  Inl e \<Rightarrow> ''Unknown''
                | Inr res \<Rightarrow>
                    (case bio_content res of
                       Inl e \<Rightarrow> ''Unknown''
                     | Inr bio \<Rightarrow>
                         (case scan_countries (pycountry_names api) bio of
                            Inl e \<Rightarrow> ''Unknown''
                          | Inr c \<Rightarrow> c)))
           \<and> (bio_fetch_fails rc \<and> [] \<notin> set (pycountry_names api)
                \<longrightarrow> Country r = ''Unknown'')" .
next
  fix e
  assume "ra = Inl e"
  with assms(2) have "sp_artist api (artist_id a) (world s) = (Inl e, w1)"
    by simp
  from enrich_item_lookup_failed[OF assms(1) this]
  show "enrich_loop api (item # rest) rows s =
          (Inl e, s\<lparr>world := w1, calls := calls s @ [ArtistCall (artist_id a)]\<rparr>)"
    by simp
qed

theorem enrichment_degrades_language_and_country_witness:
  "(\<exists>r s'. enrich_item degraded_api track_one start = (Inr r, s')
          \<and> enrich_loop degraded_api [track_one, track_two] [] start =
              enrich_loop degraded_api [track_two] [r] s'
          \<and> shown s' = []
          \<and> Genre r = ''pop'' \<and> Language r = ''unknown'' \<and> Country r = ''Unknown'')
   \<and> (\<exists>r s'. enrich_item language_fails_api track_one start = (Inr r, s')
          \<and> Genre r = ''pop'' \<and> Language r = ''unknown'' \<and> Country r = ''Canada'')
   \<and> (\<exists>r s'. enrich_item no_genre_api track_one start = (Inr r, s')
          \<and> Genre r = ''Unknown'' \<and> Language r = ''en'' \<and> Country r = ''Unknown'')
   \<and> enrich_loop first_genre_fails_api [track_one, track_two] [] start =
       (Inl (Exn ''SpotifyException'' ''artist lookup failed''),
        \<lparr> world = (), calls = [ArtistCall ''a1''], shown = [] \<rparr>)"
proof -
  let ?a = "\<lparr> artist_id = ''a1'', artist_name = ''Ann'' \<rparr>"
  let ?e = "Exn ''SpotifyException'' ''artist lookup failed''"
  let ?found = "\<lparr> genres = Some [''pop'', ''rock''] \<rparr>"
  have h1: "artists track_one = ?a # []"
    by (simp add: track_one_def)
  have h2: "sp_artist degraded_api (artist_id ?a) (world start) = (Inr ?found, ())"
    by (simp add: degraded_api_def example_api_def artist_found_def)
  have h3: "detect degraded_api (track_name track_one @ '' '' @ artist_name ?a) () =
              (Inl (Exn ''LangDetectException'' ''No features in text.''), ())"
    by (simp add: degraded_api_def example_api_def no_language_def)
  have h4: "requests_get_json degraded_api (lastfm_url degraded_api (artist_name ?a)) () =
              (Inl (Exn ''ConnectionError'' ''connection refused''), ())"
    by (simp add: degraded_api_def example_api_def no_network_def)
  from enrichment_degrades_language_and_country[OF h1 h2 h3 h4, of "[track_two]" "[]"]
  obtain r s' where
    r: "enrich_item degraded_api track_one start = (Inr r, s')"
       "enrich_loop degraded_api (track_one # [track_two]) [] start =
          enrich_loop degraded_api [track_two] ([] @ [r]) s'"
       "shown s' = shown start"
       "Genre r = ''pop''"
       "Language r = ''unknown''"
       "Country r = ''Unknown''"
    by auto
  have n: "shown s' = []" using r(3) by (simp add: start_def)
  have one: "\<exists>r s'. enrich_item degraded_api track_one start = (Inr r, s')
          \<and> enrich_loop degraded_api [track_one, track_two] [] start =
              enrich_loop degraded_api [track_two] [r] s'
          \<and> shown s' = []
          \<and> Genre r = ''pop'' \<and> Language r = ''unknown'' \<and> Country r = ''Unknown''"
    using r(1,2,4,5,6) n by auto
  have l2: "sp_artist language_fails_api (artist_id ?a) (world start) = (Inr ?found, ())"
    by (simp add: language_fails_api_def example_api_def artist_found_def)
  have l3: "detect language_fails_api (track_name track_one @ '' '' @ artist_name ?a) () =
              (Inl (Exn ''LangDetectException'' ''No features in text.''), ())"
    by (simp add: language_fails_api_def example_api_def no_language_def)
  have l4: "requests_get_json language_fails_api
              (lastfm_url language_fails_api (artist_name ?a)) () =
              (Inr (bio_response ''From Canada.''), ())"
    by (simp add: language_fails_api_def example_api_def)
  have lc: "(case bio_content (bio_response ''From Canada.'') of
               Inl e \<Rightarrow> ''Unknown''
             | Inr bio \<Rightarrow>
                 (case scan_countries (pycountry_names language_fails_api) bio of
                    Inl e \<Rightarrow> ''Unknown''
                  | Inr c \<Rightarrow> c)) = ''Canada''"
    by (simp add: bio_content_def bio_response_def language_fails_api_def example_api_def
                  lower_eval)
  from enrichment_degrades_language_and_country[OF h1 l2 l3 l4, of "[]" "[]"]
  obtain r2 s2 where
    r2: "enrich_item language_fails_api track_one start = (Inr r2, s2)"
        "Genre r2 = ''pop''"
        "Language r2 = ''unknown''"
        "Country r2 = (case bio_content (bio_response ''From Canada.'') of
               Inl e \<Rightarrow> ''Unknown''
             | Inr bio \<Rightarrow>
                 (case scan_countries (pycountry_names language_fails_api) bio of
                    Inl e \<Rightarrow> ''Unknown''
                  | Inr c \<Rightarrow> c))"
    by auto
  have two: "\<exists>r s'. enrich_item language_fails_api track_one start = (Inr r, s')
          \<and> Genre r = ''pop'' \<and> Language r = ''unknown'' \<and> Country r = ''Canada''"
    using r2 lc by auto
  have g2: "sp_artist no_genre_api (artist_id ?a) (world start) =
              (Inr \<lparr> genres = Some [] \<rparr>, ())"
    by (simp add: no_genre_api_def example_api_def artist_without_genres_def)
  have g3: "detect no_genre_api (track_name track_one @ '' '' @ artist_name ?a) () =
              (Inr ''en'', ())"
    by (simp add: no_genre_api_def example_api_def english_def)
  have g4: "requests_get_json no_genre_api (lastfm_url no_genre_api (artist_name ?a)) () =
              (Inr (JObj []), ())"
    by (simp add: no_genre_api_def example_api_def)
  have g5: "bio_fetch_fails (Inr (JObj [])) \<and> [] \<notin> set (pycountry_names no_genre_api)"
    by (simp add: bio_fetch_fails_def bio_content_def no_genre_api_def example_api_def)
  from enrichment_degrades_language_and_country[OF h1 g2 g3 g4, of "[]" "[]"] g5
  obtain r3 s3 where
    r3: "enrich_item no_genre_api track_one start = (Inr r3, s3)"
        "Genre r3 = ''Unknown''"
        "Language r3 = ''en''"
        "Country r3 = ''Unknown''"
    by auto
  have three: "\<exists>r s'. enrich_item no_genre_api track_one start = (Inr r, s')
          \<and> Genre r = ''Unknown'' \<and> Language r = ''en'' \<and> Country r = ''Unknown''"
    using r3 by auto
  have k2: "sp_artist first_genre_fails_api (artist_id ?a) (world start) = (Inl ?e, ())"
    by (simp add: first_genre_fails_api_def example_api_def first_lookup_fails_def)
  have k3: "detect first_genre_fails_api (track_name track_one @ '' '' @ artist_name ?a) () =
              (Inr ''en'', ())"
    by (simp add: first_genre_fails_api_def example_api_def english_def)
  have k4: "requests_get_json first_genre_fails_api
              (lastfm_url first_genre_fails_api (artist_name ?a)) () =
              (Inr (bio_response ''From Canada.''), ())"
    by (simp add: first_genre_fails_api_def example_api_def)
  have four: "enrich_loop first_genre_fails_api [track_one, track_two] [] start =
              (Inl ?e, \<lparr> world = (), calls = [ArtistCall ''a1''], shown = [] \<rparr>)"
    using enrichment_degrades_language_and_country[OF h1 k2 k3 k4, of "[track_two]" "[]"]
    by (simp add: start_def)
  from one two three four show ?thesis by blast
qed

text \<open>C1 as stated also covers genre resolution. There it fails: when the artist lookup of
  the first of two tracks raises, no row is built for either track; the fetch shows the
  error and returns the empty table, without ever looking at the second track.\<close>

theorem artist_lookup_failure_aborts_batch:
  "fst (current_user_top_tracks first_genre_fails_api 20 ''short_term'' ()) =
     Inr \<lparr> items = [track_one, track_two] \<rparr>
   \<and> map artist_id (artists track_one) = [''a1'']
   \<and> fst (sp_artist first_genre_fails_api ''a1'' ()) =
       Inl (Exn ''SpotifyException'' ''artist lookup failed'')
   \<and> fetch_tracks first_genre_fails_api ''short_term'' start =
       ([], \<lparr> world = (),
              calls = [TopTracksCall 20 ''short_term'', ArtistCall ''a1''],
              shown = [St_error ''Failed to fetch data: artist lookup failed''] \<rparr>)"
  by (simp add: first_genre_fails_api_def example_api_def two_tracks_def track_one_def
                track_two_def first_lookup_fails_def start_def
                fetch_tracks_def fetch_tracks_try_def do_call_def enrich_item_def
                first_artist_def)

section \<open>Properties of fetching and loading\<close>

lemma fetch_tracks_try_failed:
  "current_user_top_tracks api 20 tr (world s) = (Inl e, w') \<Longrightarrow>
   fetch_tracks_try api tr s =
     (Inl e, s\<lparr>world := w', calls := calls s @ [TopTracksCall 20 tr]\<rparr>)"
  by (simp add: fetch_tracks_try_def do_call_def)

lemma fetch_tracks_try_page:
  "current_user_top_tracks api 20 tr (world s) = (Inr page, w') \<Longrightarrow>
   fetch_tracks_try api tr s =
     (if items page = [] then (Inr [], s\<lparr>world := w', calls := calls s @ [TopTracksCall 20 tr]\<rparr>)
      else enrich_loop api (items page) []
             (s\<lparr>world := w', calls := calls s @ [TopTracksCall 20 tr]\<rparr>))"
  by (simp add: fetch_tracks_try_def do_call_def)

lemma fetch_tracks_try_shown: "shown (snd (fetch_tracks_try api tr s)) = shown s"
proof -
  obtain r w' where c: "current_user_top_tracks api 20 tr (world s) = (r, w')"
    by (cases "current_user_top_tracks api 20 tr (world s)")
  show ?thesis
    by (cases r) (use c in \<open>simp_all add: fetch_tracks_try_failed fetch_tracks_try_page enrich_loop_shown\<close>)
qed

lemma fetch_tracks_try_top_calls:
  "top_tracks_calls (calls (snd (fetch_tracks_try api tr s))) =
     top_tracks_calls (calls s) @ [TopTracksCall 20 tr]"
proof -
  obtain r w' where c: "current_user_top_tracks api 20 tr (world s) = (r, w')"
    by (cases "current_user_top_tracks api 20 tr (world s)")
  show ?thesis
  proof (cases r)
    case (Inl e)
    with c show ?thesis by (simp add: fetch_tracks_try_failed top_tracks_calls_def)
  next
    case (Inr page)
    with c show ?thesis
      by (simp add: fetch_tracks_try_page enrich_loop_top_calls) (simp add: top_tracks_calls_def)
  qed
qed

lemma fetch_tracks_top_calls:
  "top_tracks_calls (calls (snd (fetch_tracks api tr s))) =
     top_tracks_calls (calls s) @ [TopTracksCall 20 tr]"
  using fetch_tracks_try_top_calls[of api tr s]
  by (auto simp: fetch_tracks_def split: prod.splits sum.splits)

text \<open>C3. For every window identifier: when the top-tracks call returns a page with no
  items, \<open>fetch_tracks\<close> returns the empty table and shows nothing; when the call itself
  raises, \<open>fetch_tracks\<close> shows \<open>Failed to fetch data:\<close> followed by the exception's
  message and returns the empty table. In both cases it returns normally.\<close>

theorem fetch_tracks_zero_items_or_failed_call:
  assumes "current_user_top_tracks api 20 tr (world s) = (r, w')"
  shows "(\<forall>page. r = Inr page \<and> items page = [] \<longrightarrow>
            fetch_tracks api tr s =
              ([], s\<lparr>world := w', calls := calls s @ [TopTracksCall 20 tr]\<rparr>))
       \<and> (\<forall>e. r = Inl e \<longrightarrow>
            fetch_tracks api tr s =
              ([], s\<lparr>world := w', calls := calls s @ [TopTracksCall 20 tr],
                     shown := shown s @ [St_error (''Failed to fetch data: '' @ exn_msg e)]\<rparr>))"
  using assms
  by (auto simp: fetch_tracks_def fetch_tracks_try_failed fetch_tracks_try_page)

theorem fetch_tracks_zero_items_or_failed_call_witness:
  "fetch_tracks network_down_api ''long_term'' start =
     ([], \<lparr> world = (), calls = [TopTracksCall 20 ''long_term''], shown = [] \<rparr>)
   \<and> fetch_tracks spotify_down_api ''long_term'' start =
     ([], \<lparr> world = (), calls = [TopTracksCall 20 ''long_term''],
            shown = [St_error ''Failed to fetch data: token expired''] \<rparr>)"
proof -
  have a: "current_user_top_tracks network_down_api 20 ''long_term'' (world start) =
             (Inr \<lparr> items = [] \<rparr>, ())"
    by (simp add: network_down_api_def example_api_def no_page_def)
  have b: "current_user_top_tracks spotify_down_api 20 ''long_term'' (world start) =
             (Inl (Exn ''SpotifyException'' ''token expired''), ())"
    by (simp add: spotify_down_api_def example_api_def top_tracks_down_def)
  show ?thesis
    using fetch_tracks_zero_items_or_failed_call[OF a]
          fetch_tracks_zero_items_or_failed_call[OF b]
    by (simp add: start_def)
qed

lemma fetch_tracks_rows_when_lookups_succeed:
  assumes "current_user_top_tracks api 20 tr (world s) = (Inr page, w')"
      and "\<forall>t \<in> set (items page). artists t \<noteq> [] \<and>
             (\<forall>w. \<exists>info w1. sp_artist api (artist_id (hd (artists t))) w = (Inr info, w1))"
  shows "length (fst (fetch_tracks api tr s)) = length (items page)
       \<and> list_all2 (row_of_track api) (items page) (fst (fetch_tracks api tr s))
       \<and> shown (snd (fetch_tracks api tr s)) = shown s"
proof (cases "items page = []")
  case True
  with assms(1) show ?thesis
    by (simp add: fetch_tracks_def fetch_tracks_try_page)
next
  case False
  let ?s1 = "s\<lparr>world := w', calls := calls s @ [TopTracksCall 20 tr]\<rparr>"
  obtain rs where rs: "fst (enrich_loop api (items page) [] ?s1) = Inr rs"
    using enrich_loop_succeeds[OF assms(2)] by blast
  then obtain s2 where l: "enrich_loop api (items page) [] ?s1 = (Inr rs, s2)"
    by (cases "enrich_loop api (items page) [] ?s1") simp
  from enrich_loop_rows[OF l] have rows: "list_all2 (row_of_track api) (items page) rs"
    by simp
  have sh: "shown s2 = shown s"
    using enrich_loop_shown[of api "items page" "[]" ?s1] l by simp
  have f: "fetch_tracks api tr s = (rs, s2)"
    using assms(1) False l by (simp add: fetch_tracks_def fetch_tracks_try_page)
  show ?thesis
    using rows sh list_all2_lengthD[OF rows] by (simp add: f)
qed

lemma fetch_tracks_all_or_nothing:
  assumes "current_user_top_tracks api 20 tr (world s) = (Inr page, w')"
  shows "(list_all2 (row_of_track api) (items page) (fst (fetch_tracks api tr s))
            \<and> shown (snd (fetch_tracks api tr s)) = shown s)
       \<or> (fst (fetch_tracks api tr s) = []
            \<and> (\<exists>e. shown (snd (fetch_tracks api tr s)) =
                     shown s @ [St_error (''Failed to fetch data: '' @ exn_msg e)]))"
proof -
  obtain r s2 where t: "fetch_tracks_try api tr s = (r, s2)"
    by (cases "fetch_tracks_try api tr s")
  have sh: "shown s2 = shown s" using fetch_tracks_try_shown[of api tr s] t by simp
  show ?thesis
  proof (cases r)
    case (Inl e)
    with t sh show ?thesis by (auto simp: fetch_tracks_def)
  next
    case (Inr rs)
    have "list_all2 (row_of_track api) (items page) rs"
    proof (cases "items page = []")
      case True
      with assms t Inr show ?thesis by (simp add: fetch_tracks_try_page)
    next
      case False
      with assms t Inr have "enrich_loop api (items page) []
             (s\<lparr>world := w', calls := calls s @ [TopTracksCall 20 tr]\<rparr>) = (Inr rs, s2)"
        by (simp add: fetch_tracks_try_page)
      from enrich_loop_rows[OF this] show ?thesis by simp
    qed
    with t Inr sh show ?thesis by (simp add: fetch_tracks_def)
  qed
qed

text \<open>C6, as amended. For every raw track batch the top-tracks call returns: when every
  track has a first artist and every artist-metadata lookup made during the fetch
  succeeds, the table \<open>fetch_tracks\<close> returns has exactly one row per raw track, the row at
  each position being the row of the track at that position, and no error is shown,
  whatever language detection and the biography request do; otherwise the table is empty
  and an error is shown. So the table is complete and in order, or empty: rows are never
  added and never dropped in part.\<close>

theorem fetch_tracks_one_row_per_track:
  assumes "current_user_top_tracks api 20 tr (world s) = (Inr page, w')"
  shows "(lookups_succeed api (items page)
            (s\<lparr>world := w', calls := calls s @ [TopTracksCall 20 tr]\<rparr>)
          \<longrightarrow> length (fst (fetch_tracks api tr s)) = length (items page)
              \<and> list_all2 (row_of_track api) (items page) (fst (fetch_tracks api tr s))
              \<and> shown (snd (fetch_tracks api tr s)) = shown s)
       \<and> (\<not> lookups_succeed api (items page)
              (s\<lparr>world := w', calls := calls s @ [TopTracksCall 20 tr]\<rparr>)
          \<longrightarrow> fst (fetch_tracks api tr s) = []
              \<and> (\<exists>e. shown (snd (fetch_tracks api tr s)) =
                       shown s @ [St_error (''Failed to fetch data: '' @ exn_msg e)]))
       \<and> ((length (fst (fetch_tracks api tr s)) = length (items page)
              \<and> list_all2 (row_of_track api) (items page) (fst (fetch_tracks api tr s))
              \<and> shown (snd (fetch_tracks api tr s)) = shown s)
           \<or> (fst (fetch_tracks api tr s) = []
              \<and> (\<exists>e. shown (snd (fetch_tracks api tr s)) =
                       shown s @ [St_error (''Failed to fetch data: '' @ exn_msg e)])))"
proof -
  let ?s1 = "s\<lparr>world := w', calls := calls s @ [TopTracksCall 20 tr]\<rparr>"
  let ?good = "length (fst (fetch_tracks api tr s)) = length (items page)
              \<and> list_all2 (row_of_track api) (items page) (fst (fetch_tracks api tr s))
              \<and> shown (snd (fetch_tracks api tr s)) = shown s"
  let ?bad = "fst (fetch_tracks api tr s) = []
              \<and> (\<exists>e. shown (snd (fetch_tracks api tr s)) =
                       shown s @ [St_error (''Failed to fetch data: '' @ exn_msg e)])"
  obtain r s2 where l: "enrich_loop api (items page) [] ?s1 = (r, s2)"
    by (cases "enrich_loop api (items page) [] ?s1")
  have sh: "shown s2 = shown s"
    using enrich_loop_shown[of api "items page" "[]" ?s1] l by simp
  have t: "fetch_tracks_try api tr s = (r, s2)"
  proof (cases "items page = []")
    case True
    with l assms show ?thesis by (simp add: fetch_tracks_try_page)
  next
    case False
    with l assms show ?thesis by (simp add: fetch_tracks_try_page)
  qed
  have a: ?good if "lookups_succeed api (items page) ?s1"
  proof -
    from that obtain rs where "fst (enrich_loop api (items page) [] ?s1) = Inr rs"
      using enrich_loop_outcome[of api "items page" "[]" ?s1] by blast
    with l have r: "r = Inr rs" by simp
    from enrich_loop_rows[OF l[unfolded r]]
    have rows: "list_all2 (row_of_track api) (items page) rs" by simp
    have "fetch_tracks api tr s = (rs, s2)"
      using t r by (simp add: fetch_tracks_def)
    with rows sh list_all2_lengthD[OF rows] show ?thesis by simp
  qed
  have b: ?bad if "\<not> lookups_succeed api (items page) ?s1"
  proof -
    from that have "\<nexists>rs. fst (enrich_loop api (items page) [] ?s1) = Inr rs"
      using enrich_loop_outcome[of api "items page" "[]" ?s1] by blast
    with l obtain e where r: "r = Inl e" by (cases r) auto
    have "fetch_tracks api tr s =
            ([], s2\<lparr>shown := shown s2 @ [St_error (''Failed to fetch data: '' @ exn_msg e)]\<rparr>)"
      using t r by (simp add: fetch_tracks_def)
    with sh show ?thesis by auto
  qed
  from a b show ?thesis by blast
qed

theorem fetch_tracks_one_row_per_track_witness:
  "length (fst (fetch_tracks degraded_api ''short_term'' start)) = 2
   \<and> list_all2 (row_of_track degraded_api) [track_one, track_two]
        (fst (fetch_tracks degraded_api ''short_term'' start))
   \<and> shown (snd (fetch_tracks degraded_api ''short_term'' start)) = []
   \<and> fst (sp_artist flaky_api ''a1'' 2) = Inl (Exn ''SpotifyException'' ''artist lookup failed'')
   \<and> length (fst (fetch_tracks flaky_api ''short_term'' start_count)) = 2
   \<and> shown (snd (fetch_tracks flaky_api ''short_term'' start_count)) = []
   \<and> fst (fetch_tracks second_genre_fails_api ''short_term'' start) = []
   \<and> (\<exists>e. shown (snd (fetch_tracks second_genre_fails_api ''short_term'' start)) =
            [St_error (''Failed to fetch data: '' @ exn_msg e)])"
proof -
  have a: "current_user_top_tracks degraded_api 20 ''short_term'' (world start) =
             (Inr \<lparr> items = [track_one, track_two] \<rparr>, ())"
    by (simp add: degraded_api_def example_api_def two_tracks_def)
  have always: "\<forall>t \<in> set (items \<lparr> items = [track_one, track_two] \<rparr>). artists t \<noteq> [] \<and>
             (\<forall>w. \<exists>info w1. sp_artist degraded_api (artist_id (hd (artists t))) w = (Inr info, w1))"
    by (simp add: degraded_api_def example_api_def artist_found_def track_one_def track_two_def)
  have b: "lookups_succeed degraded_api (items \<lparr> items = [track_one, track_two] \<rparr>)
             (start\<lparr>world := (), calls := calls start @ [TopTracksCall 20 ''short_term'']\<rparr>)"
    by (rule lookups_succeed_if_always[OF always])
  have one: "length (fst (fetch_tracks degraded_api ''short_term'' start)) = 2
   \<and> list_all2 (row_of_track degraded_api) [track_one, track_two]
        (fst (fetch_tracks degraded_api ''short_term'' start))
   \<and> shown (snd (fetch_tracks degraded_api ''short_term'' start)) = []"
    using conjunct1[OF fetch_tracks_one_row_per_track[OF a]] b by (simp add: start_def)
  have c: "current_user_top_tracks flaky_api 20 ''short_term'' (world start_count) =
             (Inr \<lparr> items = [track_one, track_two] \<rparr>, 0)"
    by (simp add: flaky_api_def two_tracks_def start_count_def)
  have d: "lookups_succeed flaky_api (items \<lparr> items = [track_one, track_two] \<rparr>)
             (start_count\<lparr>world := 0,
                calls := calls start_count @ [TopTracksCall 20 ''short_term'']\<rparr>)"
    by (simp add: flaky_api_def start_count_def track_one_def track_two_def artist_found_def
                  no_artist_def english_def no_network_def
                  enrich_item_def first_artist_def do_call_def detect_language_def
                  get_artist_country_lastfm_def country_try_def)
  have two: "length (fst (fetch_tracks flaky_api ''short_term'' start_count)) = 2
   \<and> shown (snd (fetch_tracks flaky_api ''short_term'' start_count)) = []"
    using conjunct1[OF fetch_tracks_one_row_per_track[OF c]] d by (simp add: start_count_def)
  have f: "fst (sp_artist flaky_api ''a1'' 2) = Inl (Exn ''SpotifyException'' ''artist lookup failed'')"
    by (simp add: flaky_api_def no_artist_def)
  have g: "current_user_top_tracks second_genre_fails_api 20 ''short_term'' (world start) =
             (Inr \<lparr> items = [track_one, track_two] \<rparr>, ())"
    by (simp add: second_genre_fails_api_def example_api_def two_tracks_def)
  have h: "\<not> lookups_succeed second_genre_fails_api (items \<lparr> items = [track_one, track_two] \<rparr>)
             (start\<lparr>world := (), calls := calls start @ [TopTracksCall 20 ''short_term'']\<rparr>)"
    by (simp add: second_genre_fails_api_def example_api_def track_one_def track_two_def
                  second_lookup_fails_def)
  have three: "fst (fetch_tracks second_genre_fails_api ''short_term'' start) = []
   \<and> (\<exists>e. shown (snd (fetch_tracks second_genre_fails_api ''short_term'' start)) =
            [St_error (''Failed to fetch data: '' @ exn_msg e)])"
    using conjunct1[OF conjunct2[OF fetch_tracks_one_row_per_track[OF g]]] h
    by (simp add: start_def)
  from one two f three show ?thesis by blast
qed

text \<open>C6 as stated fails: when the artist lookup of the second of two tracks raises, the
  row already built for the first track is dropped with the rest, and the table has no
  row for a batch of two tracks.\<close>

theorem failed_lookup_drops_all_rows:
  "fst (current_user_top_tracks second_genre_fails_api 20 ''short_term'' ()) =
     Inr \<lparr> items = [track_one, track_two] \<rparr>
   \<and> length [track_one, track_two] = 2
   \<and> fst (sp_artist second_genre_fails_api ''a2'' ()) =
       Inl (Exn ''SpotifyException'' ''artist lookup failed'')
   \<and> length (fst (fetch_tracks second_genre_fails_api ''short_term'' start)) = 0"
  by (simp add: second_genre_fails_api_def example_api_def two_tracks_def track_one_def
                track_two_def second_lookup_fails_def english_def bio_response_def start_def
                fetch_tracks_def fetch_tracks_try_def do_call_def enrich_item_def
                first_artist_def detect_language_def get_artist_country_lastfm_def
                country_try_def bio_content_def lastfm_url_def first_genre_def make_row_def
                lower_eval)

text \<open>C8. The data-loading section asks for the top tracks exactly four times, in this
  order: \<open>short_term\<close>, \<open>medium_term\<close>, \<open>long_term\<close> and the selected window, also when the
  selected window is one of the three. When the table of the selected window is empty the
  run shows \<open>No data found.\<close> and stops; otherwise it continues with the four tables.\<close>

theorem load_data_fetches_and_halts:
  assumes "fetch_tracks api ''short_term'' s = (short, s1)"
      and "fetch_tracks api ''medium_term'' s1 = (medium, s2)"
      and "fetch_tracks api ''long_term'' s2 = (long, s3)"
      and "fetch_tracks api time_range s3 = (selected, s4)"
  shows "top_tracks_calls (calls (snd (load_data api time_range s))) =
           top_tracks_calls (calls s) @
             [TopTracksCall 20 ''short_term'', TopTracksCall 20 ''medium_term'',
              TopTracksCall 20 ''long_term'', TopTracksCall 20 time_range]
       \<and> (selected = [] \<longrightarrow>
            load_data api time_range s =
              (Stopped, s4\<lparr>shown := shown s4 @ [St_warning ''No data found.'']\<rparr>))
       \<and> (selected \<noteq> [] \<longrightarrow>
            load_data api time_range s =
              (Continues \<lparr>df_short = short, df_medium = medium, df_long = long, df = selected\<rparr>,
               s4))"
proof -
  have c1: "top_tracks_calls (calls s1) = top_tracks_calls (calls s) @ [TopTracksCall 20 ''short_term'']"
    using fetch_tracks_top_calls[of api "''short_term''" s] assms(1) by simp
  have c2: "top_tracks_calls (calls s2) = top_tracks_calls (calls s1) @ [TopTracksCall 20 ''medium_term'']"
    using fetch_tracks_top_calls[of api "''medium_term''" s1] assms(2) by simp
  have c3: "top_tracks_calls (calls s3) = top_tracks_calls (calls s2) @ [TopTracksCall 20 ''long_term'']"
    using fetch_tracks_top_calls[of api "''long_term''" s2] assms(3) by simp
  have c4: "top_tracks_calls (calls s4) = top_tracks_calls (calls s3) @ [TopTracksCall 20 time_range]"
    using fetch_tracks_top_calls[of api time_range s3] assms(4) by simp
  show ?thesis
    using assms c1 c2 c3 c4 by (simp add: load_data_def)
qed

theorem load_data_fetches_and_halts_witness:
  "top_tracks_calls (calls (snd (load_data spotify_down_api ''medium_term'' start))) =
     [TopTracksCall 20 ''short_term'', TopTracksCall 20 ''medium_term'',
      TopTracksCall 20 ''long_term'', TopTracksCall 20 ''medium_term'']
   \<and> fst (load_data spotify_down_api ''medium_term'' start) = Stopped
   \<and> top_tracks_calls (calls (snd (load_data degraded_api ''medium_term'' start))) =
     [TopTracksCall 20 ''short_term'', TopTracksCall 20 ''medium_term'',
      TopTracksCall 20 ''long_term'', TopTracksCall 20 ''medium_term'']
   \<and> fst (load_data degraded_api ''medium_term'' start) \<noteq> Stopped"
proof -
  obtain a s1 where 1: "fetch_tracks spotify_down_api ''short_term'' start = (a, s1)"
    by (cases "fetch_tracks spotify_down_api ''short_term'' start")
  obtain b s2 where 2: "fetch_tracks spotify_down_api ''medium_term'' s1 = (b, s2)"
    by (cases "fetch_tracks spotify_down_api ''medium_term'' s1")
  obtain c s3 where 3: "fetch_tracks spotify_down_api ''long_term'' s2 = (c, s3)"
    by (cases "fetch_tracks spotify_down_api ''long_term'' s2")
  obtain d s4 where 4: "fetch_tracks spotify_down_api ''medium_term'' s3 = (d, s4)"
    by (cases "fetch_tracks spotify_down_api ''medium_term'' s3")
  have d: "d = []"
    using 4
    by (auto simp: spotify_down_api_def example_api_def top_tracks_down_def
                   fetch_tracks_def fetch_tracks_try_def do_call_def)
  obtain a' t1 where 5: "fetch_tracks degraded_api ''short_term'' start = (a', t1)"
    by (cases "fetch_tracks degraded_api ''short_term'' start")
  obtain b' t2 where 6: "fetch_tracks degraded_api ''medium_term'' t1 = (b', t2)"
    by (cases "fetch_tracks degraded_api ''medium_term'' t1")
  obtain c' t3 where 7: "fetch_tracks degraded_api ''long_term'' t2 = (c', t3)"
    by (cases "fetch_tracks degraded_api ''long_term'' t2")
  obtain d' t4 where 8: "fetch_tracks degraded_api ''medium_term'' t3 = (d', t4)"
    by (cases "fetch_tracks degraded_api ''medium_term'' t3")
  have d': "d' \<noteq> []"
    using 8
    by (auto simp: degraded_api_def example_api_def two_tracks_def track_one_def track_two_def
                   artist_found_def no_language_def no_network_def
                   fetch_tracks_def fetch_tracks_try_def do_call_def enrich_item_def
                   first_artist_def detect_language_def get_artist_country_lastfm_def
                   country_try_def)
  note down = load_data_fetches_and_halts[OF 1 2 3 4]
  note up = load_data_fetches_and_halts[OF 5 6 7 8]
  have c1: "top_tracks_calls (calls (snd (load_data spotify_down_api ''medium_term'' start))) =
     [TopTracksCall 20 ''short_term'', TopTracksCall 20 ''medium_term'',
      TopTracksCall 20 ''long_term'', TopTracksCall 20 ''medium_term'']"
    using conjunct1[OF down] by (simp add: start_def top_tracks_calls_def)
  have c2: "top_tracks_calls (calls (snd (load_data degraded_api ''medium_term'' start))) =
     [TopTracksCall 20 ''short_term'', TopTracksCall 20 ''medium_term'',
      TopTracksCall 20 ''long_term'', TopTracksCall 20 ''medium_term'']"
    using conjunct1[OF up] by (simp add: start_def top_tracks_calls_def)
  have o1: "fst (load_data spotify_down_api ''medium_term'' start) = Stopped"
    using conjunct1[OF conjunct2[OF down]] d by simp
  have o2: "fst (load_data degraded_api ''medium_term'' start) \<noteq> Stopped"
    using conjunct2[OF conjunct2[OF up]] d' by simp
  from c1 c2 o1 o2 show ?thesis by blast
qed

section \<open>Properties of the diversity score\<close>

lemma length_unique_from: "length (unique_from seen xs) = card (set xs - set seen)"
proof (induction xs arbitrary: seen)
  case Nil
  show ?case by simp
next
  case (Cons x xs)
  show ?case
  proof (cases "x \<in> set seen")
    case True
    then have "set (x # xs) - set seen = set xs - set seen" by auto
    with True Cons show ?thesis by simp
  next
    case False
    have "set (x # xs) - set seen = insert x (set xs - set (x # seen))" using False by auto
    moreover have "x \<notin> set xs - set (x # seen)" by simp
    ultimately have "card (set (x # xs) - set seen) = Suc (card (set xs - set (x # seen)))"
      by (simp del: set_simps)
    with False Cons show ?thesis by simp
  qed
qed

lemma length_unique: "length (unique xs) = card (set xs)"
  by (simp add: unique_def length_unique_from)

lemma set_unique_from: "set (unique_from seen xs) = set xs - set seen"
  by (induction xs arbitrary: seen) auto

lemma distinct_unique_from: "distinct (unique_from seen xs)"
  by (induction xs arbitrary: seen) (auto simp: set_unique_from)

text \<open>C4. For every non-empty table the diversity score is exactly twice the number of
  distinct genres, plus twice the number of distinct languages, plus the number of
  distinct release years, plus 100 minus the mean popularity. Nothing clamps it: five
  genres, three languages, four years and mean popularity 60 give exactly 60, and a single
  track of popularity 0 gives 105.\<close>

theorem diversity_formula:
  assumes "d \<noteq> []"
  shows "diversity d =
           Inr (2 * of_nat (card (Genre ` set d))
                + 2 * of_nat (card (Language ` set d))
                + of_nat (card (Release_Year ` set d))
                + (100 - of_int (\<Sum>r\<leftarrow>d. Popularity r) / of_nat (length d)))"
  using assms by (simp add: diversity_def length_unique mean_def)

theorem diversity_formula_witness:
  "table_60 \<noteq> []
   \<and> card (Genre ` set table_60) = 5
   \<and> card (Language ` set table_60) = 3
   \<and> card (Release_Year ` set table_60) = 4
   \<and> (of_int (\<Sum>r\<leftarrow>table_60. Popularity r) / of_nat (length table_60) :: rat) = 60
   \<and> diversity table_60 = Inr 60
   \<and> diversity table_obscure = Inr 105"
proof -
  have n: "table_60 \<noteq> []" by (simp add: table_60_def)
  have g: "card (Genre ` set table_60) = 5" by (simp add: table_60_def example_row_def)
  have l: "card (Language ` set table_60) = 3"
    by (simp add: table_60_def example_row_def card_insert_if)
  have y: "card (Release_Year ` set table_60) = 4"
    by (simp add: table_60_def example_row_def card_insert_if)
  have m: "(of_int (\<Sum>r\<leftarrow>table_60. Popularity r) / of_nat (length table_60) :: rat) = 60"
    by (simp add: table_60_def example_row_def)
  have a: "diversity table_60 = Inr 60"
    using diversity_formula[OF n] unfolding g l y m by simp
  have n': "table_obscure \<noteq> []" by (simp add: table_obscure_def)
  have b: "diversity table_obscure = Inr 105"
    using diversity_formula[OF n'] by (simp add: table_obscure_def example_row_def)
  from n g l y m a b show ?thesis by blast
qed






end
